theory Spec2Isabelle
  imports Main "HOL-Library.Word"
begin

unbundle bit_operations_syntax

section \<open>The keyed hash of node:crypto\<close>

text \<open>
  \<^verbatim>\<open>crypto.createHmac('sha256', key).update(data).digest('hex')\<close> is the only
  cryptographic call of \<^verbatim>\<open>src/server.ts\<close> (lines 86 to 88) and of
  \<^verbatim>\<open>tests/utils.test.ts\<close> (lines 10 to 12). It is library code, written out
  here as its standards define it: SHA-256 after FIPS 180-4 and HMAC after RFC 2104,
  over byte strings. A byte is a \<^typ>\<open>char\<close>, a buffer a \<^typ>\<open>string\<close>.
\<close>

type_synonym buffer = string

type_synonym w32 = "32 word"

definition Ch :: "w32 \<Rightarrow> w32 \<Rightarrow> w32 \<Rightarrow> w32" where
  "Ch x y z = (x AND y) XOR (NOT x AND z)"

definition Maj :: "w32 \<Rightarrow> w32 \<Rightarrow> w32 \<Rightarrow> w32" where
  "Maj x y z = (x AND y) XOR (x AND z) XOR (y AND z)"

definition Sigma0 :: "w32 \<Rightarrow> w32" where
  "Sigma0 x = word_rotr 2 x XOR word_rotr 13 x XOR word_rotr 22 x"

definition Sigma1 :: "w32 \<Rightarrow> w32" where
  "Sigma1 x = word_rotr 6 x XOR word_rotr 11 x XOR word_rotr 25 x"

definition sigma0 :: "w32 \<Rightarrow> w32" where
  "sigma0 x = word_rotr 7 x XOR word_rotr 18 x XOR drop_bit 3 x"

definition sigma1 :: "w32 \<Rightarrow> w32" where
  "sigma1 x = word_rotr 17 x XOR word_rotr 19 x XOR drop_bit 10 x"

text \<open>
  The constants are defined as the standard defines them: the first 32 bits of the
  fractional parts of the cube roots of the first 64 primes, and of the square roots of
  the first 8. \<open>iroot k n b 0\<close> is the integer \<open>k\<close>-th root of \<open>n\<close>, found bit by bit
  from bit \<open>b - 1\<close> down.
\<close>

fun iroot :: "nat \<Rightarrow> nat \<Rightarrow> nat \<Rightarrow> nat \<Rightarrow> nat" where
  "iroot k n 0 r = r"
| "iroot k n (Suc b) r = iroot k n b (if (r + 2 ^ b) ^ k \<le> n then r + 2 ^ b else r)"

definition root_fraction :: "nat \<Rightarrow> nat \<Rightarrow> w32" where
  "root_fraction k p = of_nat (iroot k (p * 2 ^ (32 * k)) 36 0)"

definition sha256_primes :: "nat list" where
  "sha256_primes =
     [2, 3, 5, 7, 11, 13, 17, 19, 23, 29, 31, 37, 41, 43, 47, 53,
      59, 61, 67, 71, 73, 79, 83, 89, 97, 101, 103, 107, 109, 113, 127, 131,
      137, 139, 149, 151, 157, 163, 167, 173, 179, 181, 191, 193, 197, 199, 211, 223,
      227, 229, 233, 239, 241, 251, 257, 263, 269, 271, 277, 281, 283, 293, 307, 311]"

definition sha256_K :: "w32 list" where
  "sha256_K = map (root_fraction 3) sha256_primes"

definition sha256_H0 :: "w32 list" where
  "sha256_H0 = map (root_fraction 2) (take 8 sha256_primes)"

definition be32 :: "buffer \<Rightarrow> w32" where
  "be32 bs = foldl (\<lambda>acc c. push_bit 8 acc + of_char c) 0 bs"

definition word_bytes :: "w32 \<Rightarrow> buffer" where
  "word_bytes w = map (\<lambda>i. char_of (unat (drop_bit (8 * (3 - i)) w))) [0..<4]"

definition be64 :: "nat \<Rightarrow> buffer" where
  "be64 n = map (\<lambda>i. char_of (unat (drop_bit (8 * (7 - i)) (of_nat n :: 64 word)))) [0..<8]"

definition sha256_pad :: "buffer \<Rightarrow> buffer" where
  "sha256_pad m =
     m @ [CHR 0x80] @ replicate ((119 - length m mod 64) mod 64) (CHR 0x00)
       @ be64 (8 * length m)"

fun chunks :: "nat \<Rightarrow> nat \<Rightarrow> 'a list \<Rightarrow> 'a list list" where
  "chunks 0 k xs = []"
| "chunks (Suc n) k xs = take k xs # chunks n k (drop k xs)"

fun sha256_schedule :: "nat \<Rightarrow> w32 list \<Rightarrow> w32 list" where
  "sha256_schedule 0 ws = ws"
| "sha256_schedule (Suc n) ws =
     (let t = length ws
      in sha256_schedule n
           (ws @ [sigma1 (ws ! (t - 2)) + ws ! (t - 7) + sigma0 (ws ! (t - 15)) + ws ! (t - 16)]))"

fun sha256_round :: "w32 list \<Rightarrow> w32 \<times> w32 \<Rightarrow> w32 list" where
  "sha256_round [a, b, c, d, e, f, g, h] (k, w) =
     (let t1 = h + Sigma1 e + Ch e f g + k + w;
          t2 = Sigma0 a + Maj a b c
      in [t1 + t2, a, b, c, d + t1, e, f, g])"
| "sha256_round st _ = st"

definition sha256_compress :: "w32 list \<Rightarrow> buffer \<Rightarrow> w32 list" where
  "sha256_compress hs block =
     (let ws = sha256_schedule 48 (map be32 (chunks 16 4 block))
      in map2 (+) hs (foldl sha256_round hs (zip sha256_K ws)))"

definition sha256 :: "buffer \<Rightarrow> buffer" where
  "sha256 m =
     (let p = sha256_pad m
      in concat (map word_bytes (foldl sha256_compress sha256_H0 (chunks (length p div 64) 64 p))))"

definition xor_byte :: "nat \<Rightarrow> char \<Rightarrow> char" where
  "xor_byte p c = char_of ((of_char c :: nat) XOR p)"

definition hmac_key_block :: "buffer \<Rightarrow> buffer" where
  "hmac_key_block key =
     (let k = (if length key > 64 then sha256 key else key)
      in k @ replicate (64 - length k) (CHR 0x00))"

definition hmac_sha256 :: "buffer \<Rightarrow> buffer \<Rightarrow> buffer" where
  "hmac_sha256 key msg =
     (let kb = hmac_key_block key
      in sha256 (map (xor_byte 0x5c) kb @ sha256 (map (xor_byte 0x36) kb @ msg)))"

definition hex_digit :: "nat \<Rightarrow> char" where
  "hex_digit n = ''0123456789abcdef'' ! n"

definition hex :: "buffer \<Rightarrow> string" where
  "hex bs = concat (map (\<lambda>c. [hex_digit (of_char c div 16), hex_digit (of_char c mod 16)]) bs)"

section \<open>JavaScript strings\<close>

text \<open>
  A string is the list of its code units. The value of an HTTP header reaches the handler
  decoded as Latin-1, one code unit below 256 per byte received, which is what
  \<^typ>\<open>char\<close> holds; \<^verbatim>\<open>signature.length\<close> is the length of that list.
  \<^verbatim>\<open>Buffer.from(s)\<close> encodes in UTF-8: a code unit below 128 is one byte, one from
  128 to 255 is two. Environment values, the ref and the branch names are only split,
  searched and compared, never measured against bytes.
\<close>

definition utf8_unit :: "char \<Rightarrow> buffer" where
  "utf8_unit c =
     (if (of_char c :: nat) < 128 then [c]
      else [char_of (192 + (of_char c :: nat) div 64), char_of (128 + (of_char c :: nat) mod 64)])"

definition Buffer_from :: "string \<Rightarrow> buffer" where
  "Buffer_from s = concat (map utf8_unit s)"

text \<open>\<^verbatim>\<open>s.split(',')\<close>: the pieces between the separators, one piece for the empty string.\<close>

fun js_split :: "char \<Rightarrow> string \<Rightarrow> string list" where
  "js_split sep [] = [[]]"
| "js_split sep (c # cs) =
     (if c = sep then [] # js_split sep cs
      else (case js_split sep cs of [] \<Rightarrow> [[c]] | w # ws \<Rightarrow> (c # w) # ws))"

text \<open>\<^verbatim>\<open>s.replace(pat, rep)\<close> with a string pattern: the first occurrence only.\<close>

fun replace_first :: "string \<Rightarrow> string \<Rightarrow> string \<Rightarrow> string" where
  "replace_first pat rep [] = (if pat = [] then rep else [])"
| "replace_first pat rep (c # cs) =
     (if take (length pat) (c # cs) = pat then rep @ drop (length pat) (c # cs)
      else c # replace_first pat rep cs)"

text \<open>\<^verbatim>\<open>!v\<close> for an optional string: undefined and the empty string are falsy.\<close>

definition falsy :: "string option \<Rightarrow> bool" where
  "falsy v = (case v of None \<Rightarrow> True | Some s \<Rightarrow> s = [])"

text \<open>\<^verbatim>\<open>v || d\<close>.\<close>

definition or_default :: "string option \<Rightarrow> string \<Rightarrow> string" where
  "or_default v d = (case v of None \<Rightarrow> d | Some s \<Rightarrow> if s = [] then d else s)"

section \<open>Configuration (server.ts, lines 34 to 55)\<close>

text \<open>The process: \<^verbatim>\<open>process.env\<close> and \<^verbatim>\<open>process.cwd()\<close>.\<close>

record process =
  env :: "string \<rightharpoonup> string"
  cwd :: string

record config =
  secret :: "string option"
  projectPath :: string
  deployCommand :: string
  allowedBranches :: "string list"
  enableDetailedLogs :: bool

definition getConfig :: "process \<Rightarrow> config" where
  "getConfig p =
     \<lparr> secret = env p ''WEBHOOK_SECRET'',
       projectPath = or_default (env p ''PROJECT_PATH'') (cwd p),
       deployCommand = or_default (env p ''DEPLOY_COMMAND'') ''yarn install && yarn build'',
       allowedBranches =
         (case env p ''ALLOWED_BRANCHES'' of
            None \<Rightarrow> [''main'', ''master'']
          | Some s \<Rightarrow> js_split (CHR '','') s),
       enableDetailedLogs = (env p ''ENABLE_DETAILED_LOGS'' = Some ''true'') \<rparr>"

text \<open>
  Values thrown: the \<^verbatim>\<open>Error\<close> of line 48, the \<^verbatim>\<open>TypeError\<close> of
  \<^verbatim>\<open>crypto.createHmac\<close> on an undefined key, and the \<^verbatim>\<open>RangeError\<close> of
  \<^verbatim>\<open>crypto.timingSafeEqual\<close> on buffers of different byte length.
\<close>

datatype js_error = SecretRequired | TypeError | RangeError

text \<open>
  The fixed texts of the server are Japanese; each is named here by its meaning and its
  line, with the values it interpolates or appends.
\<close>

datatype error_message = Message string | UnknownDeployError

datatype log_text =
    ConfigLoaded
  | ConfigProjectPath string
  | ConfigDeployCommand string
  | ConfigAllowedBranches string
  | SignatureHeaderMissing
  | RawBodyMissing
  | SignatureInvalid
  | VerificationFailed js_error
  | DeployStarting
  | DeployCommandLine string
  | DeployStdout string
  | DeployStderr string
  | DeployCompleted
  | DeployFailed error_message
  | EventReceived "string option"
  | IgnoringEvent "string option"
  | IgnoringBranch string
  | RepositoryIs string
  | PusherIs string string
  | HandlerError js_error
  | UnhandledError

datatype level = INFO | WARN | ERROR

type_synonym log_entry = "level \<times> log_text"

fun js_join :: "string \<Rightarrow> string list \<Rightarrow> string" where
  "js_join sep [] = []"
| "js_join sep [x] = x"
| "js_join sep (x # y # ys) = x @ sep @ js_join sep (y # ys)"

definition validateConfig :: "process \<Rightarrow> js_error + log_text list" where
  "validateConfig p =
     (let config = getConfig p
      in if falsy (secret config) then Inl SecretRequired
         else Inr [ConfigLoaded,
                   ConfigProjectPath (projectPath config),
                   ConfigDeployCommand (deployCommand config),
                   ConfigAllowedBranches (js_join '', '' (allowedBranches config))])"

section \<open>Signature verification (server.ts, lines 72 to 106)\<close>

record payload =
  ref :: "string option"
  repository :: "(string \<times> string) option"
  pusher :: "(string \<times> string) option"

record webhook_request =
  x_hub_signature_256 :: "string option"
  x_github_event :: "string option"
  rawBody :: "buffer option"
  body :: payload

definition timingSafeEqual :: "buffer \<Rightarrow> buffer \<Rightarrow> js_error + bool" where
  "timingSafeEqual a b = (if length a = length b then Inr (a = b) else Inl RangeError)"

text \<open>
  What one call of \<^verbatim>\<open>verifySignature\<close> does: the value returned or thrown, the
  lines logged, and the arguments of every call of the comparator.
\<close>

record verification =
  outcome :: "js_error + bool"
  warnings :: "log_entry list"
  compared :: "(buffer \<times> buffer) list"

definition verifySignature :: "process \<Rightarrow> webhook_request \<Rightarrow> verification" where
  "verifySignature p req =
     (let config = getConfig p
      in case x_hub_signature_256 req of
           None \<Rightarrow>
             \<lparr>outcome = Inr False, warnings = [(WARN, SignatureHeaderMissing)], compared = []\<rparr>
         | Some signature \<Rightarrow>
             if signature = [] then
               \<lparr>outcome = Inr False, warnings = [(WARN, SignatureHeaderMissing)], compared = []\<rparr>
             else
               (case rawBody req of
                  None \<Rightarrow>
                    \<lparr>outcome = Inr False, warnings = [(WARN, RawBodyMissing)], compared = []\<rparr>
                | Some raw \<Rightarrow>
                    (case secret config of
                       None \<Rightarrow> \<lparr>outcome = Inl TypeError, warnings = [], compared = []\<rparr>
                     | Some key \<Rightarrow>
                         (let expected = ''sha256='' @ hex (hmac_sha256 key raw)
                          in if length signature = length expected then
                               (case timingSafeEqual (Buffer_from signature) (Buffer_from expected) of
                                  Inr isValid \<Rightarrow>
                                    \<lparr>outcome = Inr isValid,
                                     warnings = (if isValid then [] else [(WARN, SignatureInvalid)]),
                                     compared = [(Buffer_from signature, Buffer_from expected)]\<rparr>
                                | Inl e \<Rightarrow>
                                    \<lparr>outcome = Inr False,
                                     warnings = [(ERROR, VerificationFailed e)],
                                     compared = [(Buffer_from signature, Buffer_from expected)]\<rparr>)
                             else
                               \<lparr>outcome = Inr False, warnings = [(WARN, SignatureInvalid)],
                                compared = []\<rparr>))))"

text \<open>
  \<^verbatim>\<open>createSignature\<close> of tests/utils.test.ts (lines 9 to 13). The payload and the
  secret are strings there, hashed as their UTF-8 bytes; here they are those bytes, and
  so is the secret of the configuration.
\<close>

definition createSignature :: "buffer \<Rightarrow> string \<Rightarrow> string" where
  "createSignature payload_bytes key = ''sha256='' @ hex (hmac_sha256 key payload_bytes)"

section \<open>Branch filter and deployment (server.ts, lines 109 to 147)\<close>

definition isAllowedBranch :: "process \<Rightarrow> string \<Rightarrow> bool" where
  "isAllowedBranch p r =
     (let config = getConfig p;
          branch = replace_first ''refs/heads/'' [] r
      in branch \<in> set (allowedBranches config))"

text \<open>
  The process facility \<^verbatim>\<open>execAsync\<close> is a collaborator: for a command line it
  resolves with the captured output, or rejects with an \<^verbatim>\<open>Error\<close> (its message, and
  its \<^verbatim>\<open>stdout\<close> and \<^verbatim>\<open>stderr\<close> properties where it has them) or with another value.
\<close>

datatype exec_outcome =
    Resolved string string
  | RejectedError string "string option" "string option"
  | RejectedOther

record DeployResult =
  success :: bool
  stdout :: "string option"
  stderr :: "string option"
  error :: "error_message option"

record deployment =
  command :: string
  timeout :: nat
  deploy_log :: "log_entry list"
  result :: DeployResult

definition executeDeployment :: "process \<Rightarrow> (string \<Rightarrow> exec_outcome) \<Rightarrow> deployment" where
  "executeDeployment p exec =
     (let config = getConfig p;
          line = ''cd '' @ projectPath config @ '' && '' @ deployCommand config;
          started = [(INFO, DeployStarting), (INFO, DeployCommandLine line)]
      in case exec line of
           Resolved out err \<Rightarrow>
             \<lparr>command = line, timeout = 300000,
              deploy_log =
                started
                @ (if enableDetailedLogs config
                   then (INFO, DeployStdout out) # (if err = [] then [] else [(WARN, DeployStderr err)])
                   else [])
                @ [(INFO, DeployCompleted)],
              result = \<lparr>success = True, stdout = Some out, stderr = Some err, error = None\<rparr>\<rparr>
         | RejectedError msg out err \<Rightarrow>
             \<lparr>command = line, timeout = 300000,
              deploy_log = started @ [(ERROR, DeployFailed (Message msg))],
              result = \<lparr>success = False, stdout = out, stderr = err, error = Some (Message msg)\<rparr>\<rparr>
         | RejectedOther \<Rightarrow>
             \<lparr>command = line, timeout = 300000,
              deploy_log = started @ [(ERROR, DeployFailed UnknownDeployError)],
              result = \<lparr>success = False, stdout = None, stderr = None,
                        error = Some UnknownDeployError\<rparr>\<rparr>)"

text \<open>
  How \<^verbatim>\<open>child_process.exec\<close> rejects. A command that exits with failure, or is killed
  when the timeout ends, gives an \<^verbatim>\<open>Error\<close> whose message is
  \<^verbatim>\<open>Command failed: <cmd>\n<stderr>\<close>; output that outgrows \<^verbatim>\<open>maxBuffer\<close> gives one
  whose message names the stream. Both carry the captured stdout and stderr.
\<close>

definition command_failed :: "string \<Rightarrow> string \<Rightarrow> string \<Rightarrow> exec_outcome" where
  "command_failed line out err =
     RejectedError (''Command failed: '' @ line @ [CHR 0x0A] @ err) (Some out) (Some err)"

definition stdout_overflow :: "string \<Rightarrow> string \<Rightarrow> exec_outcome" where
  "stdout_overflow out err = RejectedError ''stdout maxBuffer length exceeded'' (Some out) (Some err)"

text \<open>
  Reading a log: the messages of the failure lines (line 138), and whether a text occurs
  in a string.
\<close>

fun failure_message :: "log_entry \<Rightarrow> string list" where
  "failure_message (ERROR, DeployFailed (Message m)) = [m]"
| "failure_message _ = []"

definition failure_text :: "log_entry list \<Rightarrow> string list" where
  "failure_text entries = concat (map failure_message entries)"

fun occurs_in :: "string \<Rightarrow> string \<Rightarrow> bool" where
  "occurs_in s [] = (s = [])"
| "occurs_in s (c # cs) = (take (length s) (c # cs) = s \<or> occurs_in s cs)"

section \<open>The webhook handler (server.ts, lines 150 to 196)\<close>

datatype reply_body =
    InvalidSignatureError
  | EventIgnored "string option"
  | BranchIgnored string
  | DeployTriggered string
  | InternalServerError
  | InvalidJson
  | NotFound
  | ServerRunning
  | Healthy string

text \<open>
  One handled request: the status and body sent, the deployments started (each with what
  it went on to log) and the lines the handler logged. Of a body only what the server
  chooses is kept: which fixed text it is and what is interpolated, and the timestamp;
  the health reply's uptime, versions and platform are facts of the runtime.
\<close>

record handled =
  status :: nat
  reply :: reply_body
  spawned :: "deployment list"
  logged :: "log_entry list"

text \<open>The check of line 170, with the branch that line 171 names when it fires.\<close>

definition ignored_branch :: "process \<Rightarrow> string option \<Rightarrow> string option" where
  "ignored_branch p r =
     (case r of
        None \<Rightarrow> None
      | Some s \<Rightarrow>
          if s = [] then None
          else if isAllowedBranch p s then None
          else Some (replace_first ''refs/heads/'' [] s))"

definition deploy_info :: "payload \<Rightarrow> log_entry list" where
  "deploy_info pl =
     (case repository pl of
        None \<Rightarrow> []
      | Some (name, full_name) \<Rightarrow>
          (case pusher pl of
             None \<Rightarrow> []
           | Some (pname, email) \<Rightarrow> [(INFO, RepositoryIs full_name), (INFO, PusherIs pname email)]))"

definition handleWebhook ::
  "process \<Rightarrow> string \<Rightarrow> (string \<Rightarrow> exec_outcome) \<Rightarrow> webhook_request \<Rightarrow> handled" where
  "handleWebhook p now exec req =
     (let v = verifySignature p req
      in case outcome v of
           Inl e \<Rightarrow>
             \<lparr>status = 500, reply = InternalServerError, spawned = [],
              logged = warnings v @ [(ERROR, HandlerError e)]\<rparr>
         | Inr ok \<Rightarrow>
             if ok then
               (let event = x_github_event req;
                    pl = body req;
                    received = warnings v @ [(INFO, EventReceived event)]
                in if event = Some ''push'' then
                     (case ignored_branch p (ref pl) of
                        Some branch \<Rightarrow>
                          \<lparr>status = 200, reply = BranchIgnored branch, spawned = [],
                           logged = received @ [(INFO, IgnoringBranch branch)]\<rparr>
                      | None \<Rightarrow>
                          \<lparr>status = 200, reply = DeployTriggered now,
                           spawned = [executeDeployment p exec],
                           logged = received @ deploy_info pl\<rparr>)
                   else
                     \<lparr>status = 200, reply = EventIgnored event, spawned = [],
                      logged = received @ [(INFO, IgnoringEvent event)]\<rparr>)
             else
               \<lparr>status = 403, reply = InvalidSignatureError, spawned = [], logged = warnings v\<rparr>)"

section \<open>The application (server.ts, lines 199 to 256)\<close>

text \<open>
  \<^verbatim>\<open>express.json\<close> runs first on every request. It is library code, so what it did
  is part of the request as the handlers see it: it left the request alone (no body to
  read, or not JSON by its content type), or it read the bytes, handed them to the
  \<^verbatim>\<open>verify\<close> callback of line 221 and parsed them, or the parse failed with a
  \<^verbatim>\<open>SyntaxError\<close> carrying the body, or it failed in another way. The route is the
  one the router selects for the method and the path.
\<close>

datatype json_middleware =
    Skipped
  | Parsed buffer payload
  | ParseFailed buffer
  | OtherFailure

datatype route = PostWebhook | GetHealth | GetRoot | Unmatched

record http_request =
  selected :: route
  signature_header :: "string option"
  event_header :: "string option"
  json :: json_middleware

definition empty_payload :: payload where
  "empty_payload = \<lparr>ref = None, repository = None, pusher = None\<rparr>"

definition as_webhook_request :: "http_request \<Rightarrow> webhook_request" where
  "as_webhook_request rq =
     (case json rq of
        Parsed raw pl \<Rightarrow>
          \<lparr>x_hub_signature_256 = signature_header rq, x_github_event = event_header rq,
           rawBody = Some raw, body = pl\<rparr>
      | _ \<Rightarrow>
          \<lparr>x_hub_signature_256 = signature_header rq, x_github_event = event_header rq,
           rawBody = None, body = empty_payload\<rparr>)"

text \<open>
  The application \<^verbatim>\<open>createServer\<close> returns holds no configuration: line 213 validates
  and prints, and every handler calls \<^verbatim>\<open>getConfig()\<close> when it runs.
\<close>

datatype server = Server

definition createServer :: "process \<Rightarrow> js_error + server \<times> log_text list" where
  "createServer p =
     (case validateConfig p of
        Inl e \<Rightarrow> Inl e
      | Inr printed \<Rightarrow> Inr (Server, printed))"

definition serve ::
  "server \<Rightarrow> process \<Rightarrow> string \<Rightarrow> (string \<Rightarrow> exec_outcome) \<Rightarrow> http_request \<Rightarrow> handled" where
  "serve app p now exec rq =
     (case json rq of
        ParseFailed raw \<Rightarrow> \<lparr>status = 400, reply = InvalidJson, spawned = [], logged = []\<rparr>
      | OtherFailure \<Rightarrow>
          \<lparr>status = 500, reply = InternalServerError, spawned = [],
           logged = [(ERROR, UnhandledError)]\<rparr>
      | _ \<Rightarrow>
          (case selected rq of
             PostWebhook \<Rightarrow> handleWebhook p now exec (as_webhook_request rq)
           | GetHealth \<Rightarrow> \<lparr>status = 200, reply = Healthy now, spawned = [], logged = []\<rparr>
           | GetRoot \<Rightarrow> \<lparr>status = 200, reply = ServerRunning, spawned = [], logged = []\<rparr>
           | Unmatched \<Rightarrow> \<lparr>status = 404, reply = NotFound, spawned = [], logged = []\<rparr>))"

section \<open>Fixtures of the tests\<close>

text \<open>
  \<^verbatim>\<open>setupTestEnv\<close> and \<^verbatim>\<open>createValidPayload\<close> of tests/utils.test.ts (lines 18 to 45),
  with a working directory. The deploy command there is \<^verbatim>\<open>echo "test deploy"\<close>; the
  double quote is the byte 0x22.
\<close>

definition setupTestEnv :: process where
  "setupTestEnv =
     \<lparr>env = [''WEBHOOK_SECRET'' \<mapsto> ''test-secret'',
             ''PROJECT_PATH'' \<mapsto> ''/test/project'',
             ''DEPLOY_COMMAND'' \<mapsto> ''echo '' @ [CHR 0x22] @ ''test deploy'' @ [CHR 0x22],
             ''ALLOWED_BRANCHES'' \<mapsto> ''main,master'',
             ''ENABLE_DETAILED_LOGS'' \<mapsto> ''false''],
      cwd = ''/srv/webhook''\<rparr>"

definition createValidPayload :: payload where
  "createValidPayload =
     \<lparr>ref = Some ''refs/heads/main'',
      repository = Some (''test-repo'', ''user/test-repo''),
      pusher = Some (''testuser'', ''test@example.com'')\<rparr>"

text \<open>
  A push whose body bytes \<open>raw\<close> are signed with \<open>key\<close>, as the tests send it; \<open>pl\<close> is
  what the JSON middleware parsed from the bytes.
\<close>

definition signed_push :: "buffer \<Rightarrow> string \<Rightarrow> payload \<Rightarrow> webhook_request" where
  "signed_push raw key pl =
     \<lparr>x_hub_signature_256 = Some (createSignature raw key), x_github_event = Some ''push'',
      rawBody = Some raw, body = pl\<rparr>"

text \<open>The same push as it reaches the application, after the JSON middleware.\<close>

definition webhook_post :: "buffer \<Rightarrow> string \<Rightarrow> payload \<Rightarrow> http_request" where
  "webhook_post raw key pl =
     \<lparr>selected = PostWebhook, signature_header = Some (createSignature raw key),
      event_header = Some ''push'', json = Parsed raw pl\<rparr>"

text \<open>The mocked \<^verbatim>\<open>exec\<close> of the server tests: it succeeds, or fails with an error.\<close>

definition exec_succeeds :: "string \<Rightarrow> exec_outcome" where
  "exec_succeeds line = Resolved ''deployed'' []"

definition exec_fails :: "string \<Rightarrow> exec_outcome" where
  "exec_fails line = RejectedError ''deploy failed'' (Some []) (Some ''error detail'')"

text \<open>
  An \<^verbatim>\<open>exec\<close> that succeeds for the deploy command of the test environment only, and
  one whose command the shell does not find.
\<close>

definition exec_only_deploy :: "string \<Rightarrow> exec_outcome" where
  "exec_only_deploy line =
     (if line = ''cd /test/project && echo '' @ [CHR 0x22] @ ''test deploy'' @ [CHR 0x22]
      then Resolved ''deployed'' [] else RejectedOther)"

definition exec_not_found :: "string \<Rightarrow> exec_outcome" where
  "exec_not_found line = command_failed line [] ''/bin/sh: 1: deploy: not found''"

text \<open>
  A command that prints a warning to stderr and more to stdout than the default
  \<^verbatim>\<open>maxBuffer\<close> of 1024 * 1024 bytes holds.
\<close>

definition exec_overflows :: "string \<Rightarrow> exec_outcome" where
  "exec_overflows line =
     stdout_overflow (replicate 1048576 (CHR ''x'')) ''warning: low disk space''"

text \<open>
  A signature header of 71 code units, the eighth of them U+00E9 (received as the byte
  0xE9), and a signed-looking push that carries it.
\<close>

definition latin1_header :: string where
  "latin1_header = ''sha256='' @ [CHR 0xE9] @ replicate 63 (CHR ''0'')"

definition latin1_push :: webhook_request where
  "latin1_push =
     \<lparr>x_hub_signature_256 = Some latin1_header, x_github_event = Some ''push'',
      rawBody = Some ''{}'', body = createValidPayload\<rparr>"

section \<open>Facts about the hash and the strings\<close>

text \<open>
  The integer root is the root, which fixes the constants: the initial hash value and
  both ends of the round constants are the words that FIPS 180-4 prints.
\<close>

lemma iroot_bounds:
  "r ^ k \<le> n \<Longrightarrow> n < (r + 2 ^ b) ^ k \<Longrightarrow>
     iroot k n b r ^ k \<le> n \<and> n < Suc (iroot k n b r) ^ k"
proof (induction b arbitrary: r)
  case 0
  then show ?case by simp
next
  case (Suc b)
  show ?case
  proof (cases "(r + 2 ^ b) ^ k \<le> n")
    case True
    have "n < (r + 2 ^ b + 2 ^ b) ^ k"
      using Suc.prems(2) by (simp add: mult_2 add.assoc)
    from Suc.IH [OF True this] show ?thesis using True by simp
  next
    case False
    then have "n < (r + 2 ^ b) ^ k" by simp
    from Suc.IH [OF Suc.prems(1) this] show ?thesis using False by simp
  qed
qed

lemma iroot_unique:
  assumes "0 < k" and "a ^ k \<le> n" and "n < Suc a ^ k" and "n < (2 ^ b) ^ k"
  shows "iroot k n b 0 = a"
proof -
  let ?r = "iroot k n b 0"
  have "0 ^ k \<le> n" using assms(1) by (cases k) simp_all
  then have b: "?r ^ k \<le> n \<and> n < Suc ?r ^ k"
    using iroot_bounds [of 0 k n b] assms(4) by simp
  have "\<not> a < ?r"
  proof
    assume "a < ?r"
    then have "Suc a ^ k \<le> ?r ^ k" by (simp add: power_mono)
    with b assms show False by simp
  qed
  moreover have "\<not> ?r < a"
  proof
    assume "?r < a"
    then have "Suc ?r ^ k \<le> a ^ k" by (simp add: power_mono)
    with b assms show False by simp
  qed
  ultimately show ?thesis by simp
qed

lemma root_fraction_eq:
  assumes "0 < k" and "a ^ k \<le> p * 2 ^ (32 * k)" and "p * 2 ^ (32 * k) < Suc a ^ k"
    and "p * 2 ^ (32 * k) < (2 ^ 36) ^ k"
  shows "root_fraction k p = of_nat a"
  unfolding root_fraction_def using iroot_unique [OF assms] by simp

lemma sha256_H0_values:
  "sha256_H0 = [0x6a09e667, 0xbb67ae85, 0x3c6ef372, 0xa54ff53a,
                0x510e527f, 0x9b05688c, 0x1f83d9ab, 0x5be0cd19]"
proof -
  have "root_fraction 2 2 = 0x6a09e667"
    using root_fraction_eq [of 2 "0x16a09e667" 2] by simp
  moreover have "root_fraction 2 3 = 0xbb67ae85"
    using root_fraction_eq [of 2 "0x1bb67ae85" 3] by simp
  moreover have "root_fraction 2 5 = 0x3c6ef372"
    using root_fraction_eq [of 2 "0x23c6ef372" 5] by simp
  moreover have "root_fraction 2 7 = 0xa54ff53a"
    using root_fraction_eq [of 2 "0x2a54ff53a" 7] by simp
  moreover have "root_fraction 2 11 = 0x510e527f"
    using root_fraction_eq [of 2 "0x3510e527f" 11] by simp
  moreover have "root_fraction 2 13 = 0x9b05688c"
    using root_fraction_eq [of 2 "0x39b05688c" 13] by simp
  moreover have "root_fraction 2 17 = 0x1f83d9ab"
    using root_fraction_eq [of 2 "0x41f83d9ab" 17] by simp
  moreover have "root_fraction 2 19 = 0x5be0cd19"
    using root_fraction_eq [of 2 "0x45be0cd19" 19] by simp
  ultimately show ?thesis by (simp add: sha256_H0_def sha256_primes_def)
qed


lemma sha256_K_ends:
  "take 4 sha256_K = [0x428a2f98, 0x71374491, 0xb5c0fbcf, 0xe9b5dba5]"
  "drop 60 sha256_K = [0x90befffa, 0xa4506ceb, 0xbef9a3f7, 0xc67178f2]"
proof -
  have "root_fraction 3 2 = 0x428a2f98"
    using root_fraction_eq [of 3 "0x1428a2f98" 2] by simp
  moreover have "root_fraction 3 3 = 0x71374491"
    using root_fraction_eq [of 3 "0x171374491" 3] by simp
  moreover have "root_fraction 3 5 = 0xb5c0fbcf"
    using root_fraction_eq [of 3 "0x1b5c0fbcf" 5] by simp
  moreover have "root_fraction 3 7 = 0xe9b5dba5"
    using root_fraction_eq [of 3 "0x1e9b5dba5" 7] by simp
  ultimately show "take 4 sha256_K = [0x428a2f98, 0x71374491, 0xb5c0fbcf, 0xe9b5dba5]"
    by (simp add: sha256_K_def sha256_primes_def)
  have "root_fraction 3 283 = 0x90befffa"
    using root_fraction_eq [of 3 "0x690befffa" 283] by simp
  moreover have "root_fraction 3 293 = 0xa4506ceb"
    using root_fraction_eq [of 3 "0x6a4506ceb" 293] by simp
  moreover have "root_fraction 3 307 = 0xbef9a3f7"
    using root_fraction_eq [of 3 "0x6bef9a3f7" 307] by simp
  moreover have "root_fraction 3 311 = 0xc67178f2"
    using root_fraction_eq [of 3 "0x6c67178f2" 311] by simp
  ultimately show "drop 60 sha256_K = [0x90befffa, 0xa4506ceb, 0xbef9a3f7, 0xc67178f2]"
    by (simp add: sha256_K_def sha256_primes_def)
qed

text \<open>
  The digest has 32 bytes and its hexadecimal form is ASCII, so the expected header value
  has 71 code units and \<^verbatim>\<open>Buffer.from\<close> leaves it as it is.
\<close>

lemma hex_digit_ascii: "n < 16 \<Longrightarrow> (of_char (hex_digit n) :: nat) < 128"
proof -
  assume "n < 16"
  then have "n \<in> {0,1,2,3,4,5,6,7,8,9,10,11,12,13,14,15}" by simp arith
  then show ?thesis by (auto simp: hex_digit_def)
qed

lemma of_char_lt_256: "(of_char c :: nat) < 256"
  by (cases c) simp

lemma hex_ascii: "c \<in> set (hex bs) \<Longrightarrow> (of_char c :: nat) < 128"
proof -
  have d: "(of_char x :: nat) div 16 < 16" for x
    using of_char_lt_256 [of x] by (simp add: less_mult_imp_div_less)
  assume "c \<in> set (hex bs)"
  then show ?thesis by (auto simp: hex_def d intro!: hex_digit_ascii)
qed

lemma Buffer_from_ascii: "(\<And>c. c \<in> set s \<Longrightarrow> (of_char c :: nat) < 128) \<Longrightarrow> Buffer_from s = s"
  by (induction s) (auto simp: Buffer_from_def utf8_unit_def)

lemma createSignature_ascii: "c \<in> set (createSignature P S) \<Longrightarrow> (of_char c :: nat) < 128"
  by (auto simp: createSignature_def dest: hex_ascii)

lemma Buffer_from_createSignature: "Buffer_from (createSignature P S) = createSignature P S"
  by (rule Buffer_from_ascii) (rule createSignature_ascii)

lemma createSignature_nonempty: "createSignature P S \<noteq> []"
  by (simp add: createSignature_def)

lemma hmac_key_block_zero:
  "length k < 64 \<Longrightarrow> hmac_key_block (k @ [CHR 0x00]) = hmac_key_block k"
proof -
  assume "length k < 64"
  then have "64 - length k = Suc (63 - length k)" by simp
  then show ?thesis using \<open>length k < 64\<close>
    by (simp add: hmac_key_block_def Let_def)
qed

lemma hmac_sha256_zero:
  "length k < 64 \<Longrightarrow> hmac_sha256 (k @ [CHR 0x00]) m = hmac_sha256 k m"
  by (simp add: hmac_sha256_def hmac_key_block_zero)

lemma verifySignature_created:
  "verifySignature (p\<lparr>env := (env p)(''WEBHOOK_SECRET'' \<mapsto> S)\<rparr>)
     (req\<lparr>x_hub_signature_256 := Some (createSignature P S'), rawBody := Some P\<rparr>) =
   (if length (createSignature P S') = length (createSignature P S) then
      \<lparr>outcome = Inr (createSignature P S' = createSignature P S),
       warnings = (if createSignature P S' = createSignature P S then [] else [(WARN, SignatureInvalid)]),
       compared = [(createSignature P S', createSignature P S)]\<rparr>
    else \<lparr>outcome = Inr False, warnings = [(WARN, SignatureInvalid)], compared = []\<rparr>)"
  apply (simp only: verifySignature_def Let_def flip: createSignature_def)
  apply (simp add: getConfig_def timingSafeEqual_def Buffer_from_createSignature
      createSignature_nonempty)
  done


lemma length_sha256_round: "length (sha256_round st kw) = length st"
  by (induction st kw rule: sha256_round.induct) (simp_all add: Let_def)

lemma length_foldl_round: "length (foldl sha256_round st kws) = length st"
  by (induction kws arbitrary: st) (simp_all add: length_sha256_round)

lemma length_sha256_compress: "length (sha256_compress hs b) = length hs"
  by (simp add: sha256_compress_def Let_def length_foldl_round)

lemma length_foldl_compress: "length (foldl sha256_compress hs bs) = length hs"
  by (induction bs arbitrary: hs) (simp_all add: length_sha256_compress)

lemma length_concat_word_bytes: "length (concat (map word_bytes ws)) = 4 * length ws"
  by (induction ws) (simp_all add: word_bytes_def)

lemma length_sha256: "length (sha256 m) = 32"
  by (simp add: sha256_def Let_def length_concat_word_bytes length_foldl_compress sha256_H0_def
      sha256_primes_def)

lemma length_hex: "length (hex bs) = 2 * length bs"
  by (induction bs) (simp_all add: hex_def)

lemma length_createSignature: "length (createSignature P S) = 71"
  by (simp add: createSignature_def length_hex hmac_sha256_def Let_def length_sha256)

lemma verifySignature_cases:
  assumes "x_hub_signature_256 req = Some signature" and "signature \<noteq> []"
    and "rawBody req = Some raw" and "secret (getConfig p) = Some key"
  shows "verifySignature p req =
    (if length signature = 71 then
       (if length (Buffer_from signature) = 71 then
          \<lparr>outcome = Inr (Buffer_from signature = createSignature raw key),
           warnings = (if Buffer_from signature = createSignature raw key then []
                       else [(WARN, SignatureInvalid)]),
           compared = [(Buffer_from signature, createSignature raw key)]\<rparr>
        else
          \<lparr>outcome = Inr False, warnings = [(ERROR, VerificationFailed RangeError)],
           compared = [(Buffer_from signature, createSignature raw key)]\<rparr>)
     else \<lparr>outcome = Inr False, warnings = [(WARN, SignatureInvalid)], compared = []\<rparr>)"
  using assms
  apply (simp only: verifySignature_def Let_def flip: createSignature_def)
  apply (simp add: timingSafeEqual_def Buffer_from_createSignature length_createSignature)
  done


lemma replace_first_prefix: "pat \<noteq> [] \<Longrightarrow> replace_first pat rep (pat @ s) = rep @ s"
  by (cases pat) simp_all

lemma verifySignature_signed_push:
  assumes "secret (getConfig p) = Some key"
  shows "outcome (verifySignature p (signed_push raw key pl)) = Inr True"
  using verifySignature_cases [of "signed_push raw key pl" "createSignature raw key" raw p key] assms
  by (simp add: signed_push_def createSignature_nonempty length_createSignature
      Buffer_from_createSignature)

lemma secret_setupTestEnv: "secret (getConfig setupTestEnv) = Some ''test-secret''"
  by (simp add: getConfig_def setupTestEnv_def)

lemma verify_test_push:
  "outcome (verifySignature setupTestEnv (signed_push raw ''test-secret'' pl)) = Inr True"
  by (rule verifySignature_signed_push) (rule secret_setupTestEnv)

lemma allowedBranches_setupTestEnv:
  "allowedBranches (getConfig setupTestEnv) = [''main'', ''master'']"
  by (simp add: getConfig_def setupTestEnv_def)

lemma as_webhook_request_post:
  "as_webhook_request (webhook_post raw key pl) = signed_push raw key pl"
  by (simp add: as_webhook_request_def webhook_post_def signed_push_def)

lemma config_verbose:
  "projectPath (getConfig (setupTestEnv\<lparr>env := (env setupTestEnv)(''ENABLE_DETAILED_LOGS'' \<mapsto> ''true'')\<rparr>))
     = ''/test/project''"
  "deployCommand (getConfig (setupTestEnv\<lparr>env := (env setupTestEnv)(''ENABLE_DETAILED_LOGS'' \<mapsto> ''true'')\<rparr>))
     = ''echo '' @ [CHR 0x22] @ ''test deploy'' @ [CHR 0x22]"
  "enableDetailedLogs (getConfig (setupTestEnv\<lparr>env := (env setupTestEnv)(''ENABLE_DETAILED_LOGS'' \<mapsto> ''true'')\<rparr>))"
  "projectPath (getConfig setupTestEnv) = ''/test/project''"
  "deployCommand (getConfig setupTestEnv) = ''echo '' @ [CHR 0x22] @ ''test deploy'' @ [CHR 0x22]"
  "\<not> enableDetailedLogs (getConfig setupTestEnv)"
  by (simp_all add: getConfig_def setupTestEnv_def or_default_def)

lemma occurs_in_suffix: "occurs_in s (a @ s)"
proof (induction a)
  case Nil
  show ?case by (cases s) simp_all
next
  case (Cons x a)
  then show ?case by simp
qed

lemma Buffer_from_append: "Buffer_from (a @ b) = Buffer_from a @ Buffer_from b"
  by (simp add: Buffer_from_def)

section \<open>Signing and verifying\<close>

text \<open>
  C1, as the code has it. For every payload \<open>P\<close> and secret \<open>S\<close>, verifying \<open>P\<close> against
  the signature made from \<open>P\<close> with \<open>S\<close> returns true. Verifying it against the signature
  made with another secret \<open>S'\<close> returns true exactly when the two signatures are the
  same string, and false otherwise: that the secrets differ is not enough.
\<close>

theorem sign_verify_roundtrip:
  "outcome (verifySignature (p\<lparr>env := (env p)(''WEBHOOK_SECRET'' \<mapsto> S)\<rparr>)
      (req\<lparr>x_hub_signature_256 := Some (createSignature P S), rawBody := Some P\<rparr>)) = Inr True
   \<and> outcome (verifySignature (p\<lparr>env := (env p)(''WEBHOOK_SECRET'' \<mapsto> S)\<rparr>)
      (req\<lparr>x_hub_signature_256 := Some (createSignature P S'), rawBody := Some P\<rparr>))
     = Inr (createSignature P S' = createSignature P S)"
  by (simp add: verifySignature_created length_createSignature)

text \<open>
  C1 as stated fails: HMAC pads a key shorter than its 64-byte block with zero bytes, so
  the secret \<^verbatim>\<open>test-secret\<close> and the different secret that appends one NUL to it sign
  every payload alike, and the server holding the first accepts a signature made with
  the second.
\<close>

theorem other_secret_same_signature:
  "''test-secret'' @ [CHR 0x00] \<noteq> ''test-secret''
   \<and> outcome (verifySignature setupTestEnv
        (signed_push ''{}'' (''test-secret'' @ [CHR 0x00]) createValidPayload)) = Inr True"
proof -
  have "createSignature ''{}'' (''test-secret'' @ [CHR 0x00])
          = createSignature ''{}'' ''test-secret''"
    unfolding createSignature_def by (subst hmac_sha256_zero) simp_all
  then have "signed_push ''{}'' (''test-secret'' @ [CHR 0x00]) createValidPayload
               = signed_push ''{}'' ''test-secret'' createValidPayload"
    by (simp only: signed_push_def)
  then show ?thesis
    using verify_test_push [of "''{}''" createValidPayload] by simp
qed

text \<open>
  A header whose number of code units differs from that of the expected string is
  refused at line 92, before the comparator.
\<close>

lemma length_mismatch_short_circuits:
  assumes "x_hub_signature_256 req = Some signature" and "rawBody req = Some raw"
    and "secret (getConfig p) = Some key"
    and "length signature \<noteq> length (''sha256='' @ hex (hmac_sha256 key raw))"
  shows "outcome (verifySignature p req) = Inr False \<and> compared (verifySignature p req) = []"
  using assms by (simp add: verifySignature_def Let_def)

text \<open>The header \<^verbatim>\<open>sha256=invalid\<close> of the integration test (line 165): 14 code units, not 71.\<close>

lemma length_mismatch_example:
  "outcome (verifySignature setupTestEnv
      \<lparr>x_hub_signature_256 = Some ''sha256=invalid'', x_github_event = Some ''push'',
       rawBody = Some ''{}'', body = createValidPayload\<rparr>) = Inr False
   \<and> compared (verifySignature setupTestEnv
      \<lparr>x_hub_signature_256 = Some ''sha256=invalid'', x_github_event = Some ''push'',
       rawBody = Some ''{}'', body = createValidPayload\<rparr>) = []"
proof -
  have "length ''sha256=invalid''
          \<noteq> length (''sha256='' @ hex (hmac_sha256 ''test-secret'' ''{}''))"
    by (simp add: length_hex hmac_sha256_def Let_def length_sha256)
  then show ?thesis
    by (intro length_mismatch_short_circuits [where signature = "''sha256=invalid''"
          and raw = "''{}''" and key = "''test-secret''"]) (simp_all add: secret_setupTestEnv)
qed

section \<open>Which requests deploy\<close>

text \<open>
  C2, as the code has it. A deployment is started if and only if verification returned
  true, the event is \<^verbatim>\<open>push\<close>, and the payload either has no ref (or an empty one) or
  its extracted branch is in the allowed list; it is started exactly when the reply is
  the acceptance, so no rejected or ignored request deploys.
\<close>

theorem deployment_iff:
  "(spawned (handleWebhook p now exec req) \<noteq> []) =
     (outcome (verifySignature p req) = Inr True \<and> x_github_event req = Some ''push''
      \<and> (case ref (body req) of None \<Rightarrow> True | Some r \<Rightarrow> r = [] \<or> isAllowedBranch p r))
   \<and> spawned (handleWebhook p now exec req) =
       (if reply (handleWebhook p now exec req) = DeployTriggered now
        then [executeDeployment p exec] else [])"
  by (auto simp: handleWebhook_def Let_def ignored_branch_def split: sum.splits option.splits)

text \<open>
  C2 as stated fails: a verified push whose payload has no ref starts a deployment,
  although no branch extracted from a ref is in the allowed list.
\<close>

theorem deployment_without_branch:
  "\<not> ((spawned (handleWebhook setupTestEnv ''2025-01-01T00:00:00.000Z'' exec_succeeds
             (signed_push ''{}'' ''test-secret'' empty_payload)) \<noteq> [])
       = (outcome (verifySignature setupTestEnv
             (signed_push ''{}'' ''test-secret'' empty_payload)) = Inr True
          \<and> x_github_event (signed_push ''{}'' ''test-secret'' empty_payload) = Some ''push''
          \<and> (case ref (body (signed_push ''{}'' ''test-secret'' empty_payload)) of
                None \<Rightarrow> False
              | Some r \<Rightarrow> isAllowedBranch setupTestEnv r)))"
  using verify_test_push [of "''{}''" empty_payload]
  by (simp add: handleWebhook_def Let_def ignored_branch_def)
     (simp add: signed_push_def empty_payload_def)

text \<open>
  C4. A verified push whose payload has no ref skips the branch filter and is accepted:
  200, the acceptance reply, one deployment. When the ref is \<^verbatim>\<open>refs/heads/\<close> followed by
  \<open>b\<close>, the extracted branch is \<open>b\<close>: it is what the allowed list is searched for and what
  the ignore reply names.
\<close>

theorem missing_ref_accepted:
  assumes "outcome (verifySignature p req) = Inr True" and "x_github_event req = Some ''push''"
  shows "(ref (body req) = None \<longrightarrow>
            status (handleWebhook p now exec req) = 200
            \<and> reply (handleWebhook p now exec req) = DeployTriggered now
            \<and> spawned (handleWebhook p now exec req) = [executeDeployment p exec])
         \<and> replace_first ''refs/heads/'' [] (''refs/heads/'' @ b) = b
         \<and> (ref (body req) = Some (''refs/heads/'' @ b) \<longrightarrow>
              isAllowedBranch p (''refs/heads/'' @ b) = (b \<in> set (allowedBranches (getConfig p)))
              \<and> reply (handleWebhook p now exec req) =
                  (if b \<in> set (allowedBranches (getConfig p)) then DeployTriggered now
                   else BranchIgnored b))"
  using assms
  by (auto simp: handleWebhook_def Let_def ignored_branch_def isAllowedBranch_def)

text \<open>
  Two signed pushes of the tests: one whose payload has no ref, accepted, and one to
  \<^verbatim>\<open>refs/heads/develop\<close>, ignored under the name \<^verbatim>\<open>develop\<close>.
\<close>

theorem missing_ref_accepted_witness:
  "status (handleWebhook setupTestEnv ''2025-01-01T00:00:00.000Z'' exec_succeeds
      (signed_push ''{}'' ''test-secret'' (createValidPayload\<lparr>ref := None\<rparr>))) = 200
   \<and> reply (handleWebhook setupTestEnv ''2025-01-01T00:00:00.000Z'' exec_succeeds
      (signed_push ''{}'' ''test-secret'' (createValidPayload\<lparr>ref := None\<rparr>)))
     = DeployTriggered ''2025-01-01T00:00:00.000Z''
   \<and> reply (handleWebhook setupTestEnv ''2025-01-01T00:00:00.000Z'' exec_succeeds
      (signed_push ''{}'' ''test-secret'' (createValidPayload\<lparr>ref := Some ''refs/heads/develop''\<rparr>)))
     = BranchIgnored ''develop''"
  using
    missing_ref_accepted [of setupTestEnv
      "signed_push ''{}'' ''test-secret'' (createValidPayload\<lparr>ref := None\<rparr>)"
      "''2025-01-01T00:00:00.000Z''" exec_succeeds "''develop''"]
    missing_ref_accepted [of setupTestEnv
      "signed_push ''{}'' ''test-secret'' (createValidPayload\<lparr>ref := Some ''refs/heads/develop''\<rparr>)"
      "''2025-01-01T00:00:00.000Z''" exec_succeeds "''develop''"]
  by (simp add: verify_test_push allowedBranches_setupTestEnv)
     (simp add: signed_push_def)

text \<open>
  C6. For every accepted request (verification true, event \<^verbatim>\<open>push\<close>, extracted branch in
  the allowed list) the reply is 200 with the acceptance message and exactly one
  deployment is started. It hands \<^verbatim>\<open>exec\<close> the command line
  \<^verbatim>\<open>cd <projectPath> && <deployCommand>\<close> with the five-minute timeout: its result is
  what \<^verbatim>\<open>exec\<close> answers for that line, and what \<^verbatim>\<open>exec\<close> would answer for any
  other line changes nothing.
\<close>

theorem accepted_runs_one_command:
  assumes "outcome (verifySignature p req) = Inr True" and "x_github_event req = Some ''push''"
    and "ref (body req) = Some r"
    and "replace_first ''refs/heads/'' [] r \<in> set (allowedBranches (getConfig p))"
  shows "status (handleWebhook p now exec req) = 200
         \<and> reply (handleWebhook p now exec req) = DeployTriggered now
         \<and> spawned (handleWebhook p now exec req) = [executeDeployment p exec]
         \<and> command (executeDeployment p exec) =
             ''cd '' @ projectPath (getConfig p) @ '' && '' @ deployCommand (getConfig p)
         \<and> timeout (executeDeployment p exec) = 300000
         \<and> result (executeDeployment p exec) =
             (case exec (''cd '' @ projectPath (getConfig p) @ '' && '' @ deployCommand (getConfig p)) of
                Resolved out err \<Rightarrow>
                  \<lparr>success = True, stdout = Some out, stderr = Some err, error = None\<rparr>
              | RejectedError msg out err \<Rightarrow>
                  \<lparr>success = False, stdout = out, stderr = err, error = Some (Message msg)\<rparr>
              | RejectedOther \<Rightarrow>
                  \<lparr>success = False, stdout = None, stderr = None,
                   error = Some UnknownDeployError\<rparr>)
         \<and> (exec' (''cd '' @ projectPath (getConfig p) @ '' && '' @ deployCommand (getConfig p))
               = exec (''cd '' @ projectPath (getConfig p) @ '' && '' @ deployCommand (getConfig p))
             \<longrightarrow> executeDeployment p exec' = executeDeployment p exec)
         \<and> map command (spawned (handleWebhook p now exec req)) =
             [''cd '' @ projectPath (getConfig p) @ '' && '' @ deployCommand (getConfig p)]"
  using assms
  by (auto simp: handleWebhook_def Let_def ignored_branch_def isAllowedBranch_def
      executeDeployment_def split: exec_outcome.splits)

text \<open>
  The push to \<^verbatim>\<open>refs/heads/main\<close> of the server tests: one deployment, which runs
  \<^verbatim>\<open>cd /test/project && echo "test deploy"\<close> and reports what \<^verbatim>\<open>exec\<close> answered;
  an \<^verbatim>\<open>exec\<close> that answers the same for this line and fails for every other gives
  the same deployment.
\<close>

theorem accepted_runs_one_command_witness:
  "status (handleWebhook setupTestEnv ''2025-01-01T00:00:00.000Z'' exec_succeeds
      (signed_push ''{}'' ''test-secret'' createValidPayload)) = 200
   \<and> reply (handleWebhook setupTestEnv ''2025-01-01T00:00:00.000Z'' exec_succeeds
      (signed_push ''{}'' ''test-secret'' createValidPayload))
     = DeployTriggered ''2025-01-01T00:00:00.000Z''
   \<and> spawned (handleWebhook setupTestEnv ''2025-01-01T00:00:00.000Z'' exec_succeeds
      (signed_push ''{}'' ''test-secret'' createValidPayload))
     = [executeDeployment setupTestEnv exec_succeeds]
   \<and> command (executeDeployment setupTestEnv exec_succeeds)
     = ''cd /test/project && echo '' @ [CHR 0x22] @ ''test deploy'' @ [CHR 0x22]
   \<and> timeout (executeDeployment setupTestEnv exec_succeeds) = 300000
   \<and> result (executeDeployment setupTestEnv exec_succeeds)
     = \<lparr>success = True, stdout = Some ''deployed'', stderr = Some [], error = None\<rparr>
   \<and> executeDeployment setupTestEnv exec_only_deploy = executeDeployment setupTestEnv exec_succeeds"
proof -
  have "x_github_event (signed_push ''{}'' ''test-secret'' createValidPayload) = Some ''push''"
    and "ref (body (signed_push ''{}'' ''test-secret'' createValidPayload))
           = Some ''refs/heads/main''"
    by (simp_all add: signed_push_def createValidPayload_def)
  moreover have "replace_first ''refs/heads/'' [] ''refs/heads/main''
                   \<in> set (allowedBranches (getConfig setupTestEnv))"
    by (simp add: allowedBranches_setupTestEnv)
  ultimately have t: "status (handleWebhook setupTestEnv ''2025-01-01T00:00:00.000Z'' exec_succeeds
         (signed_push ''{}'' ''test-secret'' createValidPayload)) = 200
     \<and> reply (handleWebhook setupTestEnv ''2025-01-01T00:00:00.000Z'' exec_succeeds
         (signed_push ''{}'' ''test-secret'' createValidPayload))
        = DeployTriggered ''2025-01-01T00:00:00.000Z''
     \<and> spawned (handleWebhook setupTestEnv ''2025-01-01T00:00:00.000Z'' exec_succeeds
         (signed_push ''{}'' ''test-secret'' createValidPayload))
        = [executeDeployment setupTestEnv exec_succeeds]
     \<and> command (executeDeployment setupTestEnv exec_succeeds) =
         ''cd '' @ projectPath (getConfig setupTestEnv) @ '' && '' @ deployCommand (getConfig setupTestEnv)
     \<and> timeout (executeDeployment setupTestEnv exec_succeeds) = 300000
     \<and> result (executeDeployment setupTestEnv exec_succeeds) =
         (case exec_succeeds (''cd '' @ projectPath (getConfig setupTestEnv) @ '' && ''
                               @ deployCommand (getConfig setupTestEnv)) of
            Resolved out err \<Rightarrow>
              \<lparr>success = True, stdout = Some out, stderr = Some err, error = None\<rparr>
          | RejectedError msg out err \<Rightarrow>
              \<lparr>success = False, stdout = out, stderr = err, error = Some (Message msg)\<rparr>
          | RejectedOther \<Rightarrow>
              \<lparr>success = False, stdout = None, stderr = None, error = Some UnknownDeployError\<rparr>)
     \<and> (exec_only_deploy (''cd '' @ projectPath (getConfig setupTestEnv) @ '' && ''
                               @ deployCommand (getConfig setupTestEnv))
          = exec_succeeds (''cd '' @ projectPath (getConfig setupTestEnv) @ '' && ''
                               @ deployCommand (getConfig setupTestEnv))
         \<longrightarrow> executeDeployment setupTestEnv exec_only_deploy
               = executeDeployment setupTestEnv exec_succeeds)
     \<and> map command (spawned (handleWebhook setupTestEnv ''2025-01-01T00:00:00.000Z'' exec_succeeds
         (signed_push ''{}'' ''test-secret'' createValidPayload))) =
         [''cd '' @ projectPath (getConfig setupTestEnv) @ '' && '' @ deployCommand (getConfig setupTestEnv)]"
    by (intro accepted_runs_one_command [where r = "''refs/heads/main''"])
       (simp_all add: verify_test_push)
  have l: "''cd '' @ projectPath (getConfig setupTestEnv) @ '' && '' @ deployCommand (getConfig setupTestEnv)
            = ''cd /test/project && echo '' @ [CHR 0x22] @ ''test deploy'' @ [CHR 0x22]"
    by (simp add: config_verbose)
  show ?thesis
    using t unfolding l by (simp add: exec_succeeds_def exec_only_deploy_def)
qed

text \<open>
  C10. With \<^verbatim>\<open>ALLOWED_BRANCHES\<close> set to the empty string the allowed list is the one
  empty name, not the default: a ref is allowed exactly when its extracted branch is
  empty, so a verified push to a branch with a name is ignored under that name, and only
  a ref whose extracted branch is empty (\<^verbatim>\<open>refs/heads/\<close> itself) deploys.
\<close>

theorem empty_allowed_branches:
  assumes "env p ''ALLOWED_BRANCHES'' = Some []"
  shows "allowedBranches (getConfig p) = [[]]
         \<and> isAllowedBranch p r = (replace_first ''refs/heads/'' [] r = [])
         \<and> (outcome (verifySignature p req) = Inr True \<longrightarrow> x_github_event req = Some ''push''
              \<longrightarrow> ref (body req) = Some r \<longrightarrow>
              reply (handleWebhook p now exec req) =
                (if replace_first ''refs/heads/'' [] r = [] then DeployTriggered now
                 else BranchIgnored (replace_first ''refs/heads/'' [] r))
              \<and> (spawned (handleWebhook p now exec req) = []) =
                  (replace_first ''refs/heads/'' [] r \<noteq> []))"
proof -
  have a: "allowedBranches (getConfig p) = [[]]"
    using assms by (simp add: getConfig_def)
  have b: "isAllowedBranch p r = (replace_first ''refs/heads/'' [] r = [])"
    by (auto simp: isAllowedBranch_def a Let_def)
  have c: "replace_first ''refs/heads/'' [] [] = []" by simp
  show ?thesis
    using a b c by (auto simp: handleWebhook_def Let_def ignored_branch_def)
qed

text \<open>
  The test environment with the variable emptied: the push to \<^verbatim>\<open>refs/heads/main\<close> is
  ignored, the push to \<^verbatim>\<open>refs/heads/\<close> deploys.
\<close>

theorem empty_allowed_branches_witness:
  "allowedBranches (getConfig (setupTestEnv\<lparr>env := (env setupTestEnv)(''ALLOWED_BRANCHES'' \<mapsto> [])\<rparr>))
     = [[]]
   \<and> \<not> isAllowedBranch (setupTestEnv\<lparr>env := (env setupTestEnv)(''ALLOWED_BRANCHES'' \<mapsto> [])\<rparr>)
         ''refs/heads/main''
   \<and> reply (handleWebhook (setupTestEnv\<lparr>env := (env setupTestEnv)(''ALLOWED_BRANCHES'' \<mapsto> [])\<rparr>)
        ''2025-01-01T00:00:00.000Z'' exec_succeeds
        (signed_push ''{}'' ''test-secret'' createValidPayload)) = BranchIgnored ''main''
   \<and> spawned (handleWebhook (setupTestEnv\<lparr>env := (env setupTestEnv)(''ALLOWED_BRANCHES'' \<mapsto> [])\<rparr>)
        ''2025-01-01T00:00:00.000Z'' exec_succeeds
        (signed_push ''{}'' ''test-secret'' createValidPayload)) = []
   \<and> reply (handleWebhook (setupTestEnv\<lparr>env := (env setupTestEnv)(''ALLOWED_BRANCHES'' \<mapsto> [])\<rparr>)
        ''2025-01-01T00:00:00.000Z'' exec_succeeds
        (signed_push ''{}'' ''test-secret'' (createValidPayload\<lparr>ref := Some ''refs/heads/''\<rparr>)))
       = DeployTriggered ''2025-01-01T00:00:00.000Z''"
proof -
  let ?p = "setupTestEnv\<lparr>env := (env setupTestEnv)(''ALLOWED_BRANCHES'' \<mapsto> [])\<rparr>"
  have e: "env ?p ''ALLOWED_BRANCHES'' = Some []" by simp
  have s: "secret (getConfig ?p) = Some ''test-secret''"
    by (simp add: getConfig_def setupTestEnv_def)
  have v: "outcome (verifySignature ?p (signed_push ''{}'' ''test-secret'' pl)) = Inr True" for pl
    by (rule verifySignature_signed_push) (rule s)
  have r: "x_github_event (signed_push ''{}'' ''test-secret'' pl) = Some ''push''"
     "ref (body (signed_push ''{}'' ''test-secret'' pl)) = ref pl" for pl
    by (simp_all add: signed_push_def)
  show ?thesis
    using empty_allowed_branches [OF e, of "''refs/heads/main''"
        "signed_push ''{}'' ''test-secret'' createValidPayload"
        "''2025-01-01T00:00:00.000Z''" exec_succeeds]
      empty_allowed_branches [OF e, of "''refs/heads/''"
        "signed_push ''{}'' ''test-secret'' (createValidPayload\<lparr>ref := Some ''refs/heads/''\<rparr>)"
        "''2025-01-01T00:00:00.000Z''" exec_succeeds]
    by (simp add: v r createValidPayload_def)
qed

section \<open>Rejections\<close>

text \<open>
  C7, as the code has it. For every request whose raw body is absent, verification
  returns false and the request is rejected with 403 and no deployment, whatever the
  signature header. (A captured body of no bytes is not absent.)
\<close>

theorem absent_body_rejected:
  assumes "rawBody req = None"
  shows "outcome (verifySignature p req) = Inr False
         \<and> status (handleWebhook p now exec req) = 403
         \<and> reply (handleWebhook p now exec req) = InvalidSignatureError
         \<and> spawned (handleWebhook p now exec req) = []"
  using assms
  by (auto simp: handleWebhook_def verifySignature_def Let_def split: option.splits)

text \<open>A correctly signed push whose body the middleware did not capture.\<close>

theorem absent_body_rejected_witness:
  "outcome (verifySignature setupTestEnv
      \<lparr>x_hub_signature_256 = Some (createSignature ''{}'' ''test-secret''),
       x_github_event = Some ''push'', rawBody = None, body = empty_payload\<rparr>) = Inr False
   \<and> status (handleWebhook setupTestEnv ''2025-01-01T00:00:00.000Z'' exec_succeeds
      \<lparr>x_hub_signature_256 = Some (createSignature ''{}'' ''test-secret''),
       x_github_event = Some ''push'', rawBody = None, body = empty_payload\<rparr>) = 403
   \<and> reply (handleWebhook setupTestEnv ''2025-01-01T00:00:00.000Z'' exec_succeeds
      \<lparr>x_hub_signature_256 = Some (createSignature ''{}'' ''test-secret''),
       x_github_event = Some ''push'', rawBody = None, body = empty_payload\<rparr>)
     = InvalidSignatureError
   \<and> spawned (handleWebhook setupTestEnv ''2025-01-01T00:00:00.000Z'' exec_succeeds
      \<lparr>x_hub_signature_256 = Some (createSignature ''{}'' ''test-secret''),
       x_github_event = Some ''push'', rawBody = None, body = empty_payload\<rparr>) = []"
  by (rule absent_body_rejected) simp

text \<open>
  C7 as stated fails for the empty body: a zero-length buffer is an object, so line 81
  lets it through, and with the signature of the empty byte string verification returns
  true and the request is answered 200.
\<close>

theorem empty_body_verified:
  "rawBody (signed_push [] ''test-secret'' empty_payload) = Some []
   \<and> outcome (verifySignature setupTestEnv (signed_push [] ''test-secret'' empty_payload))
       = Inr True
   \<and> status (handleWebhook setupTestEnv ''2025-01-01T00:00:00.000Z'' exec_succeeds
        (signed_push [] ''test-secret'' empty_payload)) = 200"
  using verify_test_push [of "[]" empty_payload]
  by (simp add: handleWebhook_def Let_def ignored_branch_def)
     (simp add: signed_push_def empty_payload_def)

text \<open>
  C9. For every request to the webhook route whose body the JSON middleware could not
  parse, the reply is 400 with the invalid-JSON body and nothing is deployed, whatever the
  signature header.
\<close>

theorem malformed_json_400:
  assumes "json rq = ParseFailed raw"
  shows "status (serve app p now exec rq) = 400 \<and> reply (serve app p now exec rq) = InvalidJson
         \<and> spawned (serve app p now exec rq) = []"
  using assms by (simp add: serve_def)

text \<open>The malformed body of the integration test (lines 160 to 169).\<close>

theorem malformed_json_400_witness:
  "status (serve Server setupTestEnv ''2025-01-01T00:00:00.000Z'' exec_succeeds
      \<lparr>selected = PostWebhook, signature_header = Some ''sha256=invalid'',
       event_header = Some ''push'', json = ParseFailed ''{ invalid: json }''\<rparr>) = 400
   \<and> reply (serve Server setupTestEnv ''2025-01-01T00:00:00.000Z'' exec_succeeds
      \<lparr>selected = PostWebhook, signature_header = Some ''sha256=invalid'',
       event_header = Some ''push'', json = ParseFailed ''{ invalid: json }''\<rparr>) = InvalidJson
   \<and> spawned (serve Server setupTestEnv ''2025-01-01T00:00:00.000Z'' exec_succeeds
      \<lparr>selected = PostWebhook, signature_header = Some ''sha256=invalid'',
       event_header = Some ''push'', json = ParseFailed ''{ invalid: json }''\<rparr>) = []"
  by (rule malformed_json_400 [where raw = "''{ invalid: json }''"]) simp

section \<open>Configuration is read per request\<close>

text \<open>
  C5, as the code has it. The application holds no configuration. A request is handled
  with what \<^verbatim>\<open>getConfig\<close> reads when it is handled: the values are those of construction
  as long as the five variables and the working directory read the same.
\<close>

theorem serve_reads_current_config:
  assumes "createServer p0 = Inr (app, printed)" and "getConfig p = getConfig p0"
  shows "serve app p now exec rq = serve app p0 now exec rq"
  using assms(2)
  by (simp only: serve_def handleWebhook_def verifySignature_def executeDeployment_def
      ignored_branch_def isAllowedBranch_def)

text \<open>
  A variable the configuration does not read is set after construction: the same request
  is handled the same way.
\<close>

theorem serve_reads_current_config_witness:
  "createServer setupTestEnv =
     Inr (Server, [ConfigLoaded, ConfigProjectPath ''/test/project'',
                   ConfigDeployCommand (''echo '' @ [CHR 0x22] @ ''test deploy'' @ [CHR 0x22]),
                   ConfigAllowedBranches ''main, master''])
   \<and> getConfig (setupTestEnv\<lparr>env := (env setupTestEnv)(''NODE_ENV'' \<mapsto> ''production'')\<rparr>)
       = getConfig setupTestEnv
   \<and> serve Server (setupTestEnv\<lparr>env := (env setupTestEnv)(''NODE_ENV'' \<mapsto> ''production'')\<rparr>)
        ''2025-01-01T00:00:00.000Z'' exec_succeeds
        (webhook_post ''{}'' ''test-secret'' createValidPayload)
       = serve Server setupTestEnv ''2025-01-01T00:00:00.000Z'' exec_succeeds
        (webhook_post ''{}'' ''test-secret'' createValidPayload)"
proof -
  have c: "createServer setupTestEnv =
     Inr (Server, [ConfigLoaded, ConfigProjectPath ''/test/project'',
                   ConfigDeployCommand (''echo '' @ [CHR 0x22] @ ''test deploy'' @ [CHR 0x22]),
                   ConfigAllowedBranches ''main, master''])"
    by (simp add: createServer_def validateConfig_def secret_setupTestEnv falsy_def
        allowedBranches_setupTestEnv)
       (simp add: getConfig_def setupTestEnv_def or_default_def)
  have g: "getConfig (setupTestEnv\<lparr>env := (env setupTestEnv)(''NODE_ENV'' \<mapsto> ''production'')\<rparr>)
       = getConfig setupTestEnv"
    by (simp add: getConfig_def)
  show ?thesis
    using serve_reads_current_config [OF c g] c g by simp
qed

text \<open>
  C5 as stated fails: after the server is built, \<^verbatim>\<open>ALLOWED_BRANCHES\<close> is changed to
  \<^verbatim>\<open>develop\<close>, and the same server then ignores the push to \<^verbatim>\<open>main\<close> that it
  deployed before. Nothing was captured at construction.
\<close>

theorem environment_change_takes_effect:
  "map_sum id fst (createServer setupTestEnv) = Inr Server
   \<and> reply (serve Server setupTestEnv ''2025-01-01T00:00:00.000Z'' exec_succeeds
        (webhook_post ''{}'' ''test-secret'' createValidPayload))
       = DeployTriggered ''2025-01-01T00:00:00.000Z''
   \<and> reply (serve Server (setupTestEnv\<lparr>env := (env setupTestEnv)(''ALLOWED_BRANCHES'' \<mapsto> ''develop'')\<rparr>)
        ''2025-01-01T00:00:00.000Z'' exec_succeeds
        (webhook_post ''{}'' ''test-secret'' createValidPayload))
       = BranchIgnored ''main''"
proof -
  let ?p = "setupTestEnv\<lparr>env := (env setupTestEnv)(''ALLOWED_BRANCHES'' \<mapsto> ''develop'')\<rparr>"
  have s: "secret (getConfig ?p) = Some ''test-secret''"
    by (simp add: getConfig_def setupTestEnv_def)
  have v: "outcome (verifySignature ?p (signed_push ''{}'' ''test-secret'' pl)) = Inr True" for pl
    by (rule verifySignature_signed_push) (rule s)
  have a: "allowedBranches (getConfig ?p) = [''develop'']"
    by (simp add: getConfig_def)
  have c: "map_sum id fst (createServer setupTestEnv) = Inr Server"
    by (simp add: createServer_def validateConfig_def secret_setupTestEnv falsy_def Let_def)
  have j: "json (webhook_post ''{}'' ''test-secret'' createValidPayload) = Parsed ''{}'' createValidPayload"
    "selected (webhook_post ''{}'' ''test-secret'' createValidPayload) = PostWebhook"
    by (simp_all add: webhook_post_def)
  have r: "x_github_event (signed_push ''{}'' ''test-secret'' createValidPayload) = Some ''push''"
     "ref (body (signed_push ''{}'' ''test-secret'' createValidPayload)) = Some ''refs/heads/main''"
    by (simp_all add: signed_push_def createValidPayload_def)
  show ?thesis
    by (simp add: c serve_def j as_webhook_request_post handleWebhook_def Let_def v verify_test_push
        r ignored_branch_def isAllowedBranch_def a allowedBranches_setupTestEnv)
qed

section \<open>What a deployment logs\<close>

text \<open>
  C8, as the code has it. When the command succeeds, its captured stdout is logged exactly
  when verbose logging is on, and its stderr exactly when verbose logging is on and the
  stderr is not empty. When it fails, the failure is logged whatever the verbosity, and
  the line carries the message of the error (or the fixed unknown-error text): the
  captured stderr occurs in the failure log exactly when it occurs in that message. It
  does for a command that failed, whose message \<^verbatim>\<open>exec\<close> ends with the stderr.
\<close>

theorem deployment_logging:
  "(exec (''cd '' @ projectPath (getConfig p) @ '' && '' @ deployCommand (getConfig p))
      = Resolved out err \<longrightarrow>
      ((lv, DeployStdout s) \<in> set (deploy_log (executeDeployment p exec)))
        = (enableDetailedLogs (getConfig p) \<and> lv = INFO \<and> s = out)
      \<and> ((lv, DeployStderr s) \<in> set (deploy_log (executeDeployment p exec)))
        = (enableDetailedLogs (getConfig p) \<and> lv = WARN \<and> s = err \<and> err \<noteq> []))
   \<and> (exec (''cd '' @ projectPath (getConfig p) @ '' && '' @ deployCommand (getConfig p))
      = RejectedError msg so se \<longrightarrow>
      deploy_log (executeDeployment p exec) =
        [(INFO, DeployStarting),
         (INFO, DeployCommandLine
            (''cd '' @ projectPath (getConfig p) @ '' && '' @ deployCommand (getConfig p))),
         (ERROR, DeployFailed (Message msg))]
      \<and> failure_text (deploy_log (executeDeployment p exec)) = [msg])
   \<and> (exec (''cd '' @ projectPath (getConfig p) @ '' && '' @ deployCommand (getConfig p))
      = RejectedError msg so (Some captured) \<longrightarrow>
      list_ex (occurs_in captured) (failure_text (deploy_log (executeDeployment p exec)))
        = occurs_in captured msg)
   \<and> (exec (''cd '' @ projectPath (getConfig p) @ '' && '' @ deployCommand (getConfig p))
      = command_failed
          (''cd '' @ projectPath (getConfig p) @ '' && '' @ deployCommand (getConfig p)) out err
      \<longrightarrow> list_ex (occurs_in err) (failure_text (deploy_log (executeDeployment p exec))))
   \<and> (exec (''cd '' @ projectPath (getConfig p) @ '' && '' @ deployCommand (getConfig p))
      = RejectedOther \<longrightarrow>
      deploy_log (executeDeployment p exec) =
        [(INFO, DeployStarting),
         (INFO, DeployCommandLine
            (''cd '' @ projectPath (getConfig p) @ '' && '' @ deployCommand (getConfig p))),
         (ERROR, DeployFailed UnknownDeployError)])"
proof -
  let ?line = "''cd '' @ projectPath (getConfig p) @ '' && '' @ deployCommand (getConfig p)"
  have ok: "exec ?line = Resolved out err \<Longrightarrow>
      ((lv, DeployStdout s) \<in> set (deploy_log (executeDeployment p exec)))
        = (enableDetailedLogs (getConfig p) \<and> lv = INFO \<and> s = out)
      \<and> ((lv, DeployStderr s) \<in> set (deploy_log (executeDeployment p exec)))
        = (enableDetailedLogs (getConfig p) \<and> lv = WARN \<and> s = err \<and> err \<noteq> [])"
    by (auto simp: executeDeployment_def Let_def)
  have failed: "deploy_log (executeDeployment p exec) =
        [(INFO, DeployStarting), (INFO, DeployCommandLine ?line), (ERROR, DeployFailed (Message m))]"
    if "exec ?line = RejectedError m a b" for m a b
    using that by (simp add: executeDeployment_def Let_def)
  have ft: "failure_text (deploy_log (executeDeployment p exec)) = [m]"
    if "exec ?line = RejectedError m a b" for m a b
    by (simp add: failed [OF that] failure_text_def)
  have "occurs_in err (''Command failed: '' @ ?line @ [CHR 0x0A] @ err)"
    using occurs_in_suffix [of err "''Command failed: '' @ ?line @ [CHR 0x0A]"] by simp
  then have cf: "list_ex (occurs_in err) (failure_text (deploy_log (executeDeployment p exec)))"
    if "exec ?line = command_failed ?line out err"
    using ft [OF that [unfolded command_failed_def]] by simp
  have other: "exec ?line = RejectedOther \<Longrightarrow> deploy_log (executeDeployment p exec) =
        [(INFO, DeployStarting), (INFO, DeployCommandLine ?line),
         (ERROR, DeployFailed UnknownDeployError)]"
    by (simp add: executeDeployment_def Let_def)
  show ?thesis
    using ok failed ft cf other by simp
qed

text \<open>
  Verbose: the output of a success is logged. Not verbose: it is not. The failing mock
  of the tests logs its message, in which its stderr does not occur; a command the shell
  does not find logs a message in which its stderr does; a thrown value that is no
  \<^verbatim>\<open>Error\<close> logs the fixed text.
\<close>

theorem deployment_logging_witness:
  "(INFO, DeployStdout ''built'') \<in> set (deploy_log (executeDeployment
      (setupTestEnv\<lparr>env := (env setupTestEnv)(''ENABLE_DETAILED_LOGS'' \<mapsto> ''true'')\<rparr>)
      (\<lambda>line. Resolved ''built'' ''warning: slow'')))
   \<and> (WARN, DeployStderr ''warning: slow'') \<in> set (deploy_log (executeDeployment
      (setupTestEnv\<lparr>env := (env setupTestEnv)(''ENABLE_DETAILED_LOGS'' \<mapsto> ''true'')\<rparr>)
      (\<lambda>line. Resolved ''built'' ''warning: slow'')))
   \<and> (INFO, DeployStdout ''deployed'') \<notin> set (deploy_log (executeDeployment setupTestEnv exec_succeeds))
   \<and> failure_text (deploy_log (executeDeployment setupTestEnv exec_fails)) = [''deploy failed'']
   \<and> \<not> list_ex (occurs_in ''error detail'')
         (failure_text (deploy_log (executeDeployment setupTestEnv exec_fails)))
   \<and> list_ex (occurs_in ''/bin/sh: 1: deploy: not found'')
         (failure_text (deploy_log (executeDeployment setupTestEnv exec_not_found)))
   \<and> deploy_log (executeDeployment setupTestEnv (\<lambda>line. RejectedOther)) =
        [(INFO, DeployStarting),
         (INFO, DeployCommandLine (''cd /test/project && echo '' @ [CHR 0x22] @ ''test deploy'' @ [CHR 0x22])),
         (ERROR, DeployFailed UnknownDeployError)]"
proof -
  let ?v = "setupTestEnv\<lparr>env := (env setupTestEnv)(''ENABLE_DETAILED_LOGS'' \<mapsto> ''true'')\<rparr>"
  let ?line = "''cd /test/project && echo '' @ [CHR 0x22] @ ''test deploy'' @ [CHR 0x22]"
  have lv: "''cd '' @ projectPath (getConfig ?v) @ '' && '' @ deployCommand (getConfig ?v) = ?line"
    and l: "''cd '' @ projectPath (getConfig setupTestEnv) @ '' && ''
              @ deployCommand (getConfig setupTestEnv) = ?line"
    by (simp_all add: config_verbose)
  note a = deployment_logging [where p = ?v and exec = "\<lambda>line. Resolved ''built'' ''warning: slow''"
      and out = "''built''" and err = "''warning: slow''" and lv = INFO and s = "''built''",
      unfolded lv]
  note b = deployment_logging [where p = ?v and exec = "\<lambda>line. Resolved ''built'' ''warning: slow''"
      and out = "''built''" and err = "''warning: slow''" and lv = WARN and s = "''warning: slow''",
      unfolded lv]
  note c = deployment_logging [where p = setupTestEnv and exec = exec_succeeds
      and out = "''deployed''" and err = "[]" and lv = INFO and s = "''deployed''", unfolded l]
  note d = deployment_logging [where p = setupTestEnv and exec = exec_fails
      and msg = "''deploy failed''" and so = "Some []" and se = "Some ''error detail''"
      and captured = "''error detail''", unfolded l]
  note e = deployment_logging [where p = setupTestEnv and exec = exec_not_found
      and out = "[]" and err = "''/bin/sh: 1: deploy: not found''", unfolded l]
  note f = deployment_logging [where p = setupTestEnv and exec = "\<lambda>line. RejectedOther",
      unfolded l]
  have 1: "(INFO, DeployStdout ''built'') \<in> set (deploy_log (executeDeployment ?v
             (\<lambda>line. Resolved ''built'' ''warning: slow'')))"
    using a by (simp add: config_verbose)
  have 2: "(WARN, DeployStderr ''warning: slow'') \<in> set (deploy_log (executeDeployment ?v
             (\<lambda>line. Resolved ''built'' ''warning: slow'')))"
    using b by (simp add: config_verbose)
  have 3: "(INFO, DeployStdout ''deployed'') \<notin> set (deploy_log (executeDeployment setupTestEnv exec_succeeds))"
    using c by (simp add: config_verbose exec_succeeds_def)
  have 4: "failure_text (deploy_log (executeDeployment setupTestEnv exec_fails)) = [''deploy failed'']"
    using d by (simp add: exec_fails_def failure_text_def)
  have 5: "\<not> list_ex (occurs_in ''error detail'')
         (failure_text (deploy_log (executeDeployment setupTestEnv exec_fails)))"
    using d by (simp add: exec_fails_def failure_text_def)
  have 6: "list_ex (occurs_in ''/bin/sh: 1: deploy: not found'')
         (failure_text (deploy_log (executeDeployment setupTestEnv exec_not_found)))"
    using e by (simp add: exec_not_found_def del: occurs_in.simps)
  have 7: "deploy_log (executeDeployment setupTestEnv (\<lambda>line. RejectedOther)) =
        [(INFO, DeployStarting), (INFO, DeployCommandLine ?line),
         (ERROR, DeployFailed UnknownDeployError)]"
    using f by simp
  show ?thesis using 1 2 3 4 5 6 7 by blast
qed

text \<open>
  C8 as stated fails: a command that outgrows \<^verbatim>\<open>maxBuffer\<close> on stdout is rejected
  with a message that names the stream, and the warning it wrote to stderr, captured in
  the result, is nowhere in the failure log.
\<close>

theorem overflow_log_omits_stderr:
  "stderr (result (executeDeployment setupTestEnv exec_overflows)) = Some ''warning: low disk space''
   \<and> failure_text (deploy_log (executeDeployment setupTestEnv exec_overflows))
       = [''stdout maxBuffer length exceeded'']
   \<and> \<not> list_ex (occurs_in ''warning: low disk space'')
         (failure_text (deploy_log (executeDeployment setupTestEnv exec_overflows)))"
  by (simp add: executeDeployment_def Let_def exec_overflows_def stdout_overflow_def
      failure_text_def)

text \<open>The failing mock of the server tests (lines 243 to 270): the message only.\<close>

lemma mock_failure_log:
  "deploy_log (executeDeployment setupTestEnv exec_fails) =
     [(INFO, DeployStarting),
      (INFO, DeployCommandLine (''cd /test/project && echo '' @ [CHR 0x22] @ ''test deploy'' @ [CHR 0x22])),
      (ERROR, DeployFailed (Message ''deploy failed''))]
   \<and> stderr (result (executeDeployment setupTestEnv exec_fails)) = Some ''error detail''"
  by (simp add: executeDeployment_def Let_def exec_fails_def config_verbose)

section \<open>Further facts about the pipeline\<close>

text \<open>
  The length test of line 92 is on code units, the comparator works on bytes. A header of
  71 code units with one outside ASCII passes the test and is longer than 71 bytes: the
  comparator is called, throws, and the \<^verbatim>\<open>catch\<close> of line 102 returns false.
\<close>

lemma length_utf8_unit: "length (utf8_unit c) = (if (of_char c :: nat) < 128 then 1 else 2)"
  by (simp add: utf8_unit_def)

lemma length_Buffer_from_ge: "length s \<le> length (Buffer_from s)"
  by (induction s) (simp_all add: Buffer_from_def length_utf8_unit)

lemma length_Buffer_from_gt:
  "c \<in> set s \<Longrightarrow> 128 \<le> (of_char c :: nat) \<Longrightarrow> length s < length (Buffer_from s)"
proof (induction s)
  case Nil
  then show ?case by simp
next
  case (Cons x xs)
  have le: "length xs \<le> length (Buffer_from xs)" by (rule length_Buffer_from_ge)
  show ?case
  proof (cases "x = c")
    case True
    with Cons.prems le show ?thesis by (simp add: Buffer_from_def length_utf8_unit)
  next
    case False
    with Cons have "length xs < length (Buffer_from xs)" by simp
    then show ?thesis by (simp add: Buffer_from_def length_utf8_unit)
  qed
qed

lemma non_ascii_header_reaches_comparator:
  assumes "x_hub_signature_256 req = Some signature" and "length signature = 71"
    and "c \<in> set signature" and "128 \<le> (of_char c :: nat)"
    and "rawBody req = Some raw" and "secret (getConfig p) = Some key"
  shows "verifySignature p req =
           \<lparr>outcome = Inr False, warnings = [(ERROR, VerificationFailed RangeError)],
            compared = [(Buffer_from signature, createSignature raw key)]\<rparr>"
    and "length (Buffer_from signature) \<noteq> length (createSignature raw key)"
proof -
  have ne: "signature \<noteq> []" using assms(3) by auto
  have gt: "71 < length (Buffer_from signature)"
    using length_Buffer_from_gt [OF assms(3,4)] assms(2) by simp
  show "verifySignature p req =
           \<lparr>outcome = Inr False, warnings = [(ERROR, VerificationFailed RangeError)],
            compared = [(Buffer_from signature, createSignature raw key)]\<rparr>"
    using verifySignature_cases [OF assms(1) ne assms(5,6)] assms(2) gt by simp
  show "length (Buffer_from signature) \<noteq> length (createSignature raw key)"
    using gt by (simp add: length_createSignature)
qed

lemma length_Buffer_from_latin1_header: "length (Buffer_from latin1_header) = 72"
proof -
  have "Buffer_from (replicate 63 (CHR ''0'')) = replicate 63 (CHR ''0'')"
    by (rule Buffer_from_ascii) simp
  moreover have "Buffer_from ''sha256='' = ''sha256=''"
    by (rule Buffer_from_ascii) auto
  moreover have "length (Buffer_from [CHR 0xE9]) = 2"
    by (simp add: Buffer_from_def length_utf8_unit)
  ultimately show ?thesis
    by (simp add: latin1_header_def Buffer_from_append del: append.simps)
qed

text \<open>
  C3, where the code departs from it. The claim keeps differently-sized buffers away from
  the comparator by a length check, as the comment of line 91 intends. The check of line
  92 counts code units: the header below has the 71 code units of the expected string
  and 72 bytes, so the comparator is called with buffers of 72 and 71 bytes and throws;
  verification returns false only through the \<^verbatim>\<open>catch\<close> of line 102.
\<close>

theorem comparator_given_unequal_buffers:
  "length latin1_header = length (''sha256='' @ hex (hmac_sha256 ''test-secret'' ''{}''))
   \<and> length (Buffer_from latin1_header) = 72
   \<and> length (Buffer_from (''sha256='' @ hex (hmac_sha256 ''test-secret'' ''{}''))) = 71
   \<and> verifySignature setupTestEnv latin1_push =
       \<lparr>outcome = Inr False, warnings = [(ERROR, VerificationFailed RangeError)],
        compared = [(Buffer_from latin1_header,
                     Buffer_from (''sha256='' @ hex (hmac_sha256 ''test-secret'' ''{}'')))]\<rparr>"
proof -
  have e: "''sha256='' @ hex (hmac_sha256 ''test-secret'' ''{}'') = createSignature ''{}'' ''test-secret''"
    by (simp add: createSignature_def)
  have l: "length latin1_header = 71" by (simp add: latin1_header_def)
  have b: "length (Buffer_from latin1_header) = 72"
    by (rule length_Buffer_from_latin1_header)
  have c: "CHR 0xE9 \<in> set latin1_header" "128 \<le> (of_char (CHR 0xE9) :: nat)"
    by (simp_all add: latin1_header_def)
  have v: "verifySignature setupTestEnv latin1_push =
       \<lparr>outcome = Inr False, warnings = [(ERROR, VerificationFailed RangeError)],
        compared = [(Buffer_from latin1_header, createSignature ''{}'' ''test-secret'')]\<rparr>"
    by (rule non_ascii_header_reaches_comparator(1) [OF _ l c _ secret_setupTestEnv])
       (simp_all add: latin1_push_def)
  show ?thesis
    unfolding e using l b v
    by (simp add: length_createSignature Buffer_from_createSignature)
qed

text \<open>
  With a secret in the environment \<^verbatim>\<open>verifySignature\<close> returns and never throws.
  With the secret removed after construction, a request that carries a header and a body
  is answered 500.
\<close>

lemma verifySignature_returns:
  assumes "secret (getConfig p) = Some key"
  shows "\<exists>b. outcome (verifySignature p req) = Inr b"
  using assms by (auto simp: verifySignature_def Let_def timingSafeEqual_def split: option.splits)

lemma secret_removed_500:
  assumes "secret (getConfig p) = None" and "x_hub_signature_256 req = Some signature"
    and "signature \<noteq> []" and "rawBody req = Some raw"
  shows "status (handleWebhook p now exec req) = 500
         \<and> reply (handleWebhook p now exec req) = InternalServerError
         \<and> spawned (handleWebhook p now exec req) = []"
  using assms by (simp add: handleWebhook_def verifySignature_def Let_def)

text \<open>
  The other dispositions: no signature header, another event, another branch, no route;
  when construction fails; the defaults of the configuration.
\<close>

lemma missing_header_403:
  assumes "falsy (x_hub_signature_256 req)"
  shows "status (handleWebhook p now exec req) = 403
         \<and> reply (handleWebhook p now exec req) = InvalidSignatureError
         \<and> spawned (handleWebhook p now exec req) = []"
  using assms
  by (auto simp: handleWebhook_def verifySignature_def Let_def falsy_def split: option.splits)

lemma other_event_ignored:
  assumes "outcome (verifySignature p req) = Inr True" and "x_github_event req \<noteq> Some ''push''"
  shows "status (handleWebhook p now exec req) = 200
         \<and> reply (handleWebhook p now exec req) = EventIgnored (x_github_event req)
         \<and> spawned (handleWebhook p now exec req) = []"
  using assms by (simp add: handleWebhook_def Let_def)

lemma other_branch_ignored:
  assumes "outcome (verifySignature p req) = Inr True" and "x_github_event req = Some ''push''"
    and "ref (body req) = Some r" and "r \<noteq> []"
    and "replace_first ''refs/heads/'' [] r \<notin> set (allowedBranches (getConfig p))"
  shows "status (handleWebhook p now exec req) = 200
         \<and> reply (handleWebhook p now exec req) = BranchIgnored (replace_first ''refs/heads/'' [] r)
         \<and> spawned (handleWebhook p now exec req) = []"
  using assms by (simp add: handleWebhook_def Let_def ignored_branch_def isAllowedBranch_def)

lemma createServer_fails_iff:
  "(createServer p = Inl SecretRequired) = falsy (env p ''WEBHOOK_SECRET'')"
  "(\<exists>printed. createServer p = Inr (Server, printed)) = (\<not> falsy (env p ''WEBHOOK_SECRET''))"
  by (auto simp: createServer_def validateConfig_def getConfig_def Let_def)

lemma unmatched_route_404:
  assumes "selected rq = Unmatched" and "json rq = Skipped \<or> (\<exists>raw pl. json rq = Parsed raw pl)"
  shows "status (serve app p now exec rq) = 404 \<and> reply (serve app p now exec rq) = NotFound"
  using assms by (auto simp: serve_def)

lemma getConfig_defaults:
  assumes "env p ''PROJECT_PATH'' = None" and "env p ''DEPLOY_COMMAND'' = None"
    and "env p ''ALLOWED_BRANCHES'' = None"
  shows "projectPath (getConfig p) = cwd p"
    and "deployCommand (getConfig p) = ''yarn install && yarn build''"
    and "allowedBranches (getConfig p) = [''main'', ''master'']"
    and "enableDetailedLogs (getConfig p) = (env p ''ENABLE_DETAILED_LOGS'' = Some ''true'')"
  using assms by (simp_all add: getConfig_def or_default_def)

text \<open>
  \<^verbatim>\<open>replace\<close> leaves a ref that does not contain the text unchanged, and removes
  the text wherever it first occurs.
\<close>

lemma replace_first_absent:
  "(\<And>i. take (length pat) (drop i s) \<noteq> pat) \<Longrightarrow> replace_first pat rep s = s"
proof (induction s)
  case Nil
  show ?case using Nil [of 0] by auto
next
  case (Cons c cs)
  have "take (length pat) (c # cs) \<noteq> pat" using Cons.prems [of 0] by simp
  moreover have "replace_first pat rep cs = cs"
  proof (rule Cons.IH)
    fix i show "take (length pat) (drop i cs) \<noteq> pat" using Cons.prems [of "Suc i"] by simp
  qed
  ultimately show ?case by simp
qed

lemma replace_first_inside:
  "replace_first ''refs/heads/'' [] ''refs/tags/refs/heads/v1'' = ''refs/tags/v1''"
  by simp

end
